theory Spec2Isabelle
  imports Complex_Main "HOL-Library.AList"
begin

section \<open>Floating-point values\<close>

text \<open>
  The numpy arrays of \<^verbatim>\<open>CARDAMOMlib.py\<close> hold IEEE doubles. The model keeps the three
  kinds of special value apart from the finite ones: \<open>NaN\<close> (numpy's missing value),
  the two infinities, and \<open>Fin x\<close> for a finite value \<open>x\<close>. Arithmetic on the special
  values follows IEEE 754; arithmetic on finite values is exact (rounding and overflow
  of finite results are not modelled), and the two zeros are one value \<open>Fin 0\<close> of
  positive sign.
\<close>

datatype fl = NaN | PInf | NInf | Fin real

fun fl_neg :: "fl \<Rightarrow> fl" where
  "fl_neg NaN = NaN"
| "fl_neg PInf = NInf"
| "fl_neg NInf = PInf"
| "fl_neg (Fin x) = Fin (- x)"

fun fl_add :: "fl \<Rightarrow> fl \<Rightarrow> fl" where
  "fl_add NaN b = NaN"
| "fl_add PInf NaN = NaN"
| "fl_add PInf NInf = NaN"
| "fl_add PInf PInf = PInf"
| "fl_add PInf (Fin y) = PInf"
| "fl_add NInf NaN = NaN"
| "fl_add NInf PInf = NaN"
| "fl_add NInf NInf = NInf"
| "fl_add NInf (Fin y) = NInf"
| "fl_add (Fin x) NaN = NaN"
| "fl_add (Fin x) PInf = PInf"
| "fl_add (Fin x) NInf = NInf"
| "fl_add (Fin x) (Fin y) = Fin (x + y)"

definition fl_sub :: "fl \<Rightarrow> fl \<Rightarrow> fl" where
  "fl_sub a b = fl_add a (fl_neg b)"

fun fl_mul :: "fl \<Rightarrow> fl \<Rightarrow> fl" where
  "fl_mul NaN b = NaN"
| "fl_mul PInf NaN = NaN"
| "fl_mul PInf PInf = PInf"
| "fl_mul PInf NInf = NInf"
| "fl_mul PInf (Fin y) = (if y = 0 then NaN else if 0 < y then PInf else NInf)"
| "fl_mul NInf NaN = NaN"
| "fl_mul NInf PInf = NInf"
| "fl_mul NInf NInf = PInf"
| "fl_mul NInf (Fin y) = (if y = 0 then NaN else if 0 < y then NInf else PInf)"
| "fl_mul (Fin x) NaN = NaN"
| "fl_mul (Fin x) PInf = (if x = 0 then NaN else if 0 < x then PInf else NInf)"
| "fl_mul (Fin x) NInf = (if x = 0 then NaN else if 0 < x then NInf else PInf)"
| "fl_mul (Fin x) (Fin y) = Fin (x * y)"

text \<open>
  Division of numpy floats does not raise: a finite non-zero value divided by zero is an
  infinity, and \<open>0/0\<close>, \<open>inf/inf\<close> and anything involving \<open>NaN\<close> are \<open>NaN\<close>.
\<close>

fun fl_div :: "fl \<Rightarrow> fl \<Rightarrow> fl" where
  "fl_div NaN b = NaN"
| "fl_div PInf NaN = NaN"
| "fl_div PInf PInf = NaN"
| "fl_div PInf NInf = NaN"
| "fl_div PInf (Fin y) = (if 0 \<le> y then PInf else NInf)"
| "fl_div NInf NaN = NaN"
| "fl_div NInf PInf = NaN"
| "fl_div NInf NInf = NaN"
| "fl_div NInf (Fin y) = (if 0 \<le> y then NInf else PInf)"
| "fl_div (Fin x) NaN = NaN"
| "fl_div (Fin x) PInf = Fin 0"
| "fl_div (Fin x) NInf = Fin 0"
| "fl_div (Fin x) (Fin y) =
     (if y = 0 then (if x = 0 then NaN else if 0 < x then PInf else NInf)
      else Fin (x / y))"

definition fl_sum :: "fl list \<Rightarrow> fl" where
  "fl_sum xs = foldr fl_add xs (Fin 0)"

text \<open>The largest finite double, \<open>(2 - 2\<^sup>-\<^sup>5\<^sup>2) \<sqdot> 2\<^sup>1\<^sup>0\<^sup>2\<^sup>3\<close>.\<close>

definition float_max :: real where
  "float_max = (2 - 1 / 2 ^ 52) * 2 ^ 1023"

section \<open>Exceptions\<close>

text \<open>
  Every exception of the Python code is a value; a computation that may raise returns
  \<open>exc + 'a\<close>, with \<open>Inl\<close> for the exception. \<open>DMRError\<close> is the exception class of the
  discrete model run that \<^verbatim>\<open>load_Delta_14C_dataset\<close> catches; \<open>LinAlgError\<close> is what
  \<^verbatim>\<open>numpy.linalg.solve\<close> raises on a singular matrix.
\<close>

datatype exc =
    ValueError string
  | DMRError string
  | LinAlgError string
  | AttributeError string
  | TypeError string
  | IndexError string
  | NameError string
  | OSError string

definition bind_exc :: "exc + 'a \<Rightarrow> ('a \<Rightarrow> exc + 'b) \<Rightarrow> exc + 'b" where
  "bind_exc m f = (case m of Inl e \<Rightarrow> Inl e | Inr x \<Rightarrow> f x)"

section \<open>The Delta 14C diagnostic\<close>

text \<open>
  \<^verbatim>\<open>alpha = 1.18e-12\<close> and
  \<^verbatim>\<open>F_Delta_14C = lambda C12, C14: (C14/C12/alpha - 1) * 1000\<close>
  of \<^verbatim>\<open>create_Delta_14C_dataset\<close>.
\<close>

definition alpha :: real where
  "alpha = 1.18 / 10 ^ 12"

definition F_Delta_14C :: "fl \<Rightarrow> fl \<Rightarrow> fl" where
  "F_Delta_14C C12 C14 =
     fl_mul (fl_sub (fl_div (fl_div C14 C12) (Fin alpha)) (Fin 1)) (Fin 1000)"

text \<open>
  A binary operation on two one-dimensional numpy arrays works elementwise; an array of
  length one is broadcast against the other, and any other difference of lengths raises.
\<close>

definition np_elementwise :: "('a \<Rightarrow> 'a \<Rightarrow> 'b) \<Rightarrow> 'a list \<Rightarrow> 'a list \<Rightarrow> exc + 'b list" where
  "np_elementwise f xs ys =
     (if length xs = length ys then Inr (map2 f xs ys)
      else if length xs = 1 then Inr (map (f (hd xs)) ys)
      else if length ys = 1 then Inr (map (\<lambda>x. f x (hd ys)) xs)
      else Inl (ValueError ''operands could not be broadcast together''))"


text \<open>
  Two-dimensional arrays are lists of rows, three-dimensional ones lists of matrices.
  An index beyond an axis raises \<^verbatim>\<open>IndexError\<close>.
\<close>

definition np_column :: "'a list list \<Rightarrow> nat \<Rightarrow> exc + 'a list" where
  \<comment> \<open>\<^verbatim>\<open>a[:, j]\<close>\<close>
  "np_column a j =
     (if list_all (\<lambda>row. j < length row) a then Inr (map (\<lambda>row. row ! j) a)
      else Inl (IndexError ''index is out of bounds for axis 1''))"

definition np_column2 :: "'a list list list \<Rightarrow> nat \<Rightarrow> nat \<Rightarrow> exc + 'a list" where
  \<comment> \<open>\<^verbatim>\<open>a[:, i, j]\<close>\<close>
  "np_column2 a i j =
     (if list_all (\<lambda>m. i < length m \<and> j < length (m ! i)) a
      then Inr (map (\<lambda>m. m ! i ! j) a)
      else Inl (IndexError ''index is out of bounds''))"

definition py_slice_to :: "int \<Rightarrow> 'a list \<Rightarrow> 'a list" where
  \<comment> \<open>\<^verbatim>\<open>xs[:k]\<close>: a negative \<open>k\<close> counts from the end.\<close>
  "py_slice_to k xs =
     (if 0 \<le> k then take (nat k) xs else take (nat (int (length xs) + k)) xs)"

definition np_max :: "fl list \<Rightarrow> exc + fl" where
  \<comment> \<open>\<^verbatim>\<open>np.max\<close> of the flattened array: raises on an empty array, \<open>NaN\<close> if any entry is.\<close>
  "np_max xs =
     (if xs = [] then Inl (ValueError ''zero-size array to reduction operation maximum which has no identity'')
      else if NaN \<in> set xs then Inr NaN
      else if PInf \<in> set xs then Inr PInf
      else if list_all (\<lambda>x. x = NInf) xs then Inr NInf
      else Inr (Fin (Max (set (concat (map (\<lambda>x. case x of Fin r \<Rightarrow> [r] | _ \<Rightarrow> []) xs))))))"

section \<open>Datasets\<close>

text \<open>
  An \<^verbatim>\<open>xarray.Dataset\<close> holds coordinate variables, data variables and attributes; the
  dictionaries are association lists in insertion order. A variable has named dimensions,
  a shape, its values (flattened) and attributes.
\<close>

datatype payload = Floats "fl list" | Strings "string list"

record data_array =
  dims :: "string list"
  shape :: "nat list"
  vdata :: payload
  attrs :: "(string \<times> string) list"

record dataset =
  coords :: "(string \<times> data_array) list"
  data_vars :: "(string \<times> data_array) list"
  ds_attrs :: "(string \<times> string) list"

definition variables :: "dataset \<Rightarrow> (string \<times> data_array) list" where
  \<comment> \<open>\<^verbatim>\<open>ds.variables\<close>: the coordinates and the data variables\<close>
  "variables ds = coords ds @ data_vars ds"

definition ds_getattr :: "dataset \<Rightarrow> string \<Rightarrow> exc + data_array" where
  \<comment> \<open>\<^verbatim>\<open>ds.name\<close>\<close>
  "ds_getattr ds name =
     (case map_of (variables ds) name of
        None \<Rightarrow> Inl (AttributeError name)
      | Some v \<Rightarrow> Inr v)"

text \<open>
  A dataset gives every dimension name one length. When a variable is stored, xarray
  recomputes the dimensions and raises \<^verbatim>\<open>ValueError\<close> if two variables disagree on the
  length of a dimension, or if a dimension carries the name of a zero-dimensional variable.
\<close>

definition dim_sizes :: "(string \<times> data_array) list \<Rightarrow> (string \<times> nat) list" where
  "dim_sizes vs = concat (map (\<lambda>(k, v). zip (dims v) (shape v)) vs)"

definition dims_consistent :: "(string \<times> data_array) list \<Rightarrow> bool" where
  "dims_consistent vs =
     list_all (\<lambda>(d, n).
         list_all (\<lambda>(k, v). k = d \<longrightarrow> dims v \<noteq> []) vs \<and>
         list_all (\<lambda>(d', n'). d' = d \<longrightarrow> n' = n) (dim_sizes vs))
       (dim_sizes vs)"

definition ds_put :: "dataset \<Rightarrow> string \<Rightarrow> data_array \<Rightarrow> dataset" where
  \<comment> \<open>the dataset with \<open>var\<close> stored under \<open>name\<close>; a coordinate of that name stays a
      coordinate.\<close>
  "ds_put ds name var =
     (if name \<in> fst ` set (coords ds)
      then ds\<lparr>coords := AList.update name var (coords ds)\<rparr>
      else ds\<lparr>data_vars := AList.update name var (data_vars ds)\<rparr>)"

definition ds_setitem :: "dataset \<Rightarrow> string \<Rightarrow> data_array \<Rightarrow> exc + dataset" where
  \<comment> \<open>\<^verbatim>\<open>ds[name] = var\<close>\<close>
  "ds_setitem ds name var =
     (let ds' = ds_put ds name var
      in if dims_consistent (variables ds') then Inr ds'
         else Inl (ValueError ''conflicting sizes for dimension''))"

definition scalar_float :: "fl \<Rightarrow> (string \<times> string) list \<Rightarrow> data_array" where
  "scalar_float x as = \<lparr>dims = [], shape = [], vdata = Floats [x], attrs = as\<rparr>"

definition scalar_string :: "string \<Rightarrow> data_array" where
  "scalar_string s = \<lparr>dims = [], shape = [], vdata = Strings [s], attrs = []\<rparr>"

text \<open>
  \<^verbatim>\<open>np.nan * val\<close> for a data variable \<open>val\<close>: every entry of a float array becomes
  \<open>NaN\<close>; numpy has no product of a float and a string array.
\<close>

definition nan_times :: "data_array \<Rightarrow> exc + data_array" where
  "nan_times val =
     (case vdata val of
        Floats xs \<Rightarrow> Inr (val\<lparr>vdata := Floats (map (fl_mul NaN) xs), attrs := []\<rparr>)
      | Strings ss \<Rightarrow> Inl (TypeError ''ufunc multiply did not contain a loop with signature matching types''))"

text \<open>
  \<^verbatim>\<open>ds.copy(data=data_vars)\<close>: a new dataset with the coordinates and attributes of \<open>ds\<close>
  and the values of \<open>data_vars\<close>; xarray raises \<^verbatim>\<open>ValueError\<close> unless the keys of
  \<open>data_vars\<close> are exactly the data variables of \<open>ds\<close>, and when a shape differs.
\<close>

definition ds_copy_data :: "dataset \<Rightarrow> (string \<times> data_array) list \<Rightarrow> exc + dataset" where
  "ds_copy_data ds new_data =
     (if set (map fst new_data) \<noteq> set (map fst (data_vars ds))
      then Inl (ValueError ''Data must contain exactly the variables of the original dataset'')
      else if \<not> list_all (\<lambda>(k, v). case map_of new_data k of
                                      None \<Rightarrow> False
                                    | Some w \<Rightarrow> shape w = shape v) (data_vars ds)
      then Inl (ValueError ''Data shape must match shape of object'')
      else Inr (ds\<lparr>data_vars :=
             map (\<lambda>(k, v). (k, case map_of new_data k of
                                  None \<Rightarrow> v
                                | Some w \<Rightarrow> v\<lparr>vdata := vdata w\<rparr>)) (data_vars ds)\<rparr>))"


text \<open>
  \<^verbatim>\<open>xr.DataArray(data, coords, dims, attrs)\<close> for one-dimensional \<open>data\<close>: xarray raises
  \<^verbatim>\<open>ValueError\<close> unless there is exactly one dimension name and every coordinate along it
  has the length of the data.
\<close>

definition DataArray ::
  "fl list \<Rightarrow> (string \<times> data_array) list \<Rightarrow> string list \<Rightarrow> (string \<times> string) list
     \<Rightarrow> exc + data_array" where
  "DataArray dat cs ds as =
     (if length ds \<noteq> 1
      then Inl (ValueError ''different number of dimensions on data and dims'')
      else if \<not> list_all (\<lambda>(k, c).
                   list_all (\<lambda>(d, n). d = hd ds \<longrightarrow> n = length dat) (zip (dims c) (shape c))) cs
      then Inl (ValueError ''conflicting sizes for dimension'')
      else Inr \<lparr>dims = ds, shape = [length dat], vdata = Floats dat, attrs = as\<rparr>)"

definition coords_of :: "dataset \<Rightarrow> data_array \<Rightarrow> (string \<times> data_array) list" where
  \<comment> \<open>\<^verbatim>\<open>ds[name].coords\<close>: the coordinates of \<open>ds\<close> along the dimensions of the variable\<close>
  "coords_of ds v = filter (\<lambda>(k, c). set (dims c) \<subseteq> set (dims v)) (coords ds)"

text \<open>
  \<^verbatim>\<open>xr.Dataset(data_vars, coords, attrs)\<close>: a name may not be both a data variable and a
  coordinate, and the dimensions must be consistent.
\<close>

definition Dataset ::
  "(string \<times> data_array) list \<Rightarrow> (string \<times> data_array) list \<Rightarrow> (string \<times> string) list
     \<Rightarrow> exc + dataset" where
  "Dataset dvs cs as =
     (if list_ex (\<lambda>k. k \<in> set (map fst cs)) (map fst dvs)
      then Inl (ValueError ''variables found in both data_vars and coords'')
      else if \<not> dims_consistent (cs @ dvs)
      then Inl (ValueError ''conflicting sizes for dimension'')
      else Inr \<lparr>coords = cs, data_vars = dvs, ds_attrs = as\<rparr>)"

section \<open>Model structure and model data object\<close>

text \<open>
  \<^verbatim>\<open>bgc_md2.Variable\<close>: data with a unit.
\<close>

record 'a Variable =
  data :: 'a
  unit :: string

definition days_per_month :: real where
  \<comment> \<open>all months are supposed to comprise 365.25/12 days\<close>
  "days_per_month = 365.25 / 12"

text \<open>
  Modelled from the spec: \<^verbatim>\<open>Variable.convert\<close> (module \<^verbatim>\<open>bgc_md2.Variable\<close>) is not among
  the sources. The specification says of the only conversion the code asks for, from
  \<^verbatim>\<open>g/(365.25/12 d)\<close> to \<^verbatim>\<open>g/d\<close>: ``Convert monthly-aggregated flux magnitudes to daily
  rates by dividing by the step length in days''.
\<close>

definition monthly_to_daily :: "fl \<Rightarrow> fl" where
  \<comment> \<open>Modelled from the spec: the factor of \<^verbatim>\<open>Variable.convert\<close> from a monthly to a daily
      rate, division by the step length in days.\<close>
  "monthly_to_daily x = fl_div x (Fin days_per_month)"

definition convert2 :: "fl list list Variable \<Rightarrow> string \<Rightarrow> fl list list Variable" where
  \<comment> \<open>Modelled from the spec: \<^verbatim>\<open>Variable.convert\<close> on a two-dimensional flux array.\<close>
  "convert2 v tar_unit = \<lparr>data = map (map monthly_to_daily) (data v), unit = tar_unit\<rparr>"

definition convert3 :: "fl list list list Variable \<Rightarrow> string \<Rightarrow> fl list list list Variable" where
  \<comment> \<open>Modelled from the spec: \<^verbatim>\<open>Variable.convert\<close> on a three-dimensional flux array.\<close>
  "convert3 v tar_unit = \<lparr>data = map (map (map monthly_to_daily)) (data v), unit = tar_unit\<rparr>"

text \<open>
  \<^verbatim>\<open>bgc_md2.ModelStructure\<close> is not among the sources either; the record holds the
  arguments of its constructor, and \<open>pool_names\<close> lists the \<^verbatim>\<open>pool_name\<close> entries of the
  pool structure in order.
\<close>

record ModelStructure =
  pool_structure :: "(string \<times> string) list"
  external_input_structure :: "(string \<times> string list) list"
  horizontal_structure :: "((string \<times> string) \<times> string list) list"
  vertical_structure :: "(string \<times> string list) list"
  external_output_structure :: "(string \<times> string list) list"

definition pool_names :: "ModelStructure \<Rightarrow> string list" where
  "pool_names ms = map fst (pool_structure ms)"

definition load_model_structure :: ModelStructure where
  "load_model_structure =
     \<lparr>pool_structure =
        [(''Labile'', ''Labile''), (''Leaf'', ''Leaf''), (''Root'', ''Root''),
         (''Wood'', ''Wood''), (''Litter'', ''Litter''), (''Soil'', ''Soil'')],
      external_input_structure =
        [(''Labile'', [''NPP_to_Labile'']), (''Leaf'', [''NPP_to_Leaf'']),
         (''Root'', [''NPP_to_Root'']), (''Wood'', [''NPP_to_Wood''])],
      horizontal_structure =
        [((''Labile'', ''Leaf''), [''Labile_to_Leaf'']),
         ((''Leaf'', ''Litter''), [''Leaf_to_Litter'']),
         ((''Wood'', ''Soil''), [''Wood_to_Soil'']),
         ((''Root'', ''Litter''), [''Root_to_Litter'']),
         ((''Litter'', ''Soil''), [''Litter_to_Soil''])],
      vertical_structure = [],
      external_output_structure =
        [(''Litter'', [''Litter_to_RH'']), (''Soil'', [''Soil_to_RH''])]\<rparr>"

record ModelDataObject =
  model_structure :: ModelStructure
  mdo_dataset :: dataset
  stock_unit :: string
  time :: "real list Variable"

definition load_mdo :: "dataset \<Rightarrow> exc + ModelDataObject" where
  "load_mdo ds =
     (let ms = load_model_structure
      in bind_exc (ds_getattr ds ''time'') (\<lambda>t.
           case shape t of
             [] \<Rightarrow> Inl (TypeError ''len() of unsized object'')
           | n # _ \<Rightarrow>
               Inr \<lparr>model_structure = ms, mdo_dataset = ds, stock_unit = ''gC/m2'',
                    time = \<lparr>data = map (\<lambda>i. real i * days_per_month) [0..<n],
                            unit = ''d''\<rparr>\<rparr>))"

section \<open>Model runs\<close>

text \<open>
  The discrete and the smooth model run of the package \<^verbatim>\<open>CompartmentalSystems\<close> are
  black boxes. A model run is the record of what the code reads from it: its times, the
  number of pools, the flux arrays, and the result of \<^verbatim>\<open>solve()\<close>, which is either the
  array of stocks (one row per time, one column per pool) or the exception it raises.
  A discrete model run has its matrices \<open>Bs\<close>, a smooth one its matrix and input
  functions.
\<close>

record model_run_base =
  times_mr :: "real list"
  nr_pools :: nat
  solve :: "exc + fl list list"
  external_input_vector :: "fl list list"
  internal_flux_matrix :: "fl list list list"
  external_output_vector :: "fl list list"

record dmr = model_run_base +
  Bs :: "fl list list list"

record smr = model_run_base +
  B_func :: "real \<Rightarrow> fl list list"
  external_input_vector_func :: "real \<Rightarrow> fl list"

datatype model_run = DMR dmr | SMR smr

definition base :: "model_run \<Rightarrow> model_run_base" where
  "base mr = (case mr of DMR d \<Rightarrow> model_run_base.truncate d
                       | SMR s \<Rightarrow> model_run_base.truncate s)"

text \<open>
  What the code calls outside this module: reading and interpolating the atmospheric
  curve (\<^verbatim>\<open>np.loadtxt\<close> and \<^verbatim>\<open>interp1d\<close> on the file \<^verbatim>\<open>C14Atm_NH.csv\<close>), the two
  reconstructions of the model data object with their error estimates,
  \<^verbatim>\<open>np.linalg.solve\<close>, and the construction of the 14C-only model run. Each either
  returns or raises.
\<close>

record env =
  loadtxt_interp1d :: "exc + (real \<Rightarrow> real)"
  create_discrete_model_run ::
    "ModelDataObject \<Rightarrow> exc + (dmr \<times> fl list Variable \<times> fl list Variable)"
  create_model_run ::
    "ModelDataObject \<Rightarrow> exc + (smr \<times> fl list Variable \<times> fl list Variable)"
  linalg_solve :: "fl list list \<Rightarrow> fl list \<Rightarrow> exc + fl list"
  dmr_to_14C_only :: "dmr \<Rightarrow> fl list \<Rightarrow> fl list list \<Rightarrow> exc + dmr"
  smr_to_14C_only :: "smr \<Rightarrow> fl list \<Rightarrow> (real \<Rightarrow> real) \<Rightarrow> exc + smr"

section \<open>Assembling the Delta 14C dataset\<close>

fun for_each :: "('a \<Rightarrow> 's \<Rightarrow> exc + 's) \<Rightarrow> 'a list \<Rightarrow> 's \<Rightarrow> exc + 's" where
  "for_each body [] s = Inr s"
| "for_each body (x # xs) s = bind_exc (body x s) (for_each body xs)"

definition add_variable ::
  "dataset \<Rightarrow> (string \<times> data_array) list \<Rightarrow> string \<Rightarrow> fl list Variable
     \<Rightarrow> exc + (string \<times> data_array) list" where
  "add_variable ds dvs var_name_ds new_var =
     (case map_of (variables ds) var_name_ds of
        None \<Rightarrow> Inr dvs
      | Some var_ds \<Rightarrow>
          bind_exc (DataArray (data new_var) (coords_of ds var_ds) (dims var_ds)
                      (AList.update ''units'' (unit new_var) (attrs var_ds)))
            (\<lambda>var. Inr (AList.update var_name_ds var dvs)))"

definition nan_first :: "nat \<Rightarrow> 'a \<Rightarrow> (nat \<Rightarrow> 'a \<Rightarrow> bool) \<Rightarrow> 'a list \<Rightarrow> exc + 'a list" where
  \<comment> \<open>\<^verbatim>\<open>np.concatenate([nan_block, a], axis=0)\<close>: the blocks must agree in the other axes\<close>
  "nan_first n nan_block fits a =
     (if list_all (fits n) a then Inr (nan_block # a)
      else Inl (ValueError ''all the input array dimensions except for the concatenation axis must match exactly''))"

definition monthly2 :: "nat \<Rightarrow> int \<Rightarrow> fl list list \<Rightarrow> exc + fl list list Variable" where
  \<comment> \<open>insert np.nan at time t0\<close>
  "monthly2 n k a =
     bind_exc (nan_first n (replicate n NaN) (\<lambda>n row. length row = n) (py_slice_to k a))
       (\<lambda>d. Inr \<lparr>data = d, unit = ''g/(365.25/12 d)''\<rparr>)"

definition monthly3 :: "nat \<Rightarrow> int \<Rightarrow> fl list list list \<Rightarrow> exc + fl list list list Variable" where
  "monthly3 n k a =
     bind_exc (nan_first n (replicate n (replicate n NaN))
                 (\<lambda>n m. length m = n \<and> list_all (\<lambda>row. length row = n) m) (py_slice_to k a))
       (\<lambda>d. Inr \<lparr>data = d, unit = ''g/(365.25/12 d)''\<rparr>)"

text \<open>
  The bodies of the four loops of \<^verbatim>\<open>create_Delta_14C_dataset\<close>. A model run is of one of
  the two kinds, so the branch \<^verbatim>\<open>raise()\<close> for any other object has no counterpart; of the
  pair that a smooth model run's \<^verbatim>\<open>solve()\<close> returns, \<open>solve\<close> is the array of stocks.
\<close>

definition stock_step ::
  "ModelDataObject \<Rightarrow> dataset \<Rightarrow> model_run \<Rightarrow> model_run \<Rightarrow> nat \<times> string
     \<Rightarrow> (string \<times> data_array) list \<Rightarrow> exc + (string \<times> data_array) list" where
  "stock_step mdo ds mr mr_14C = (\<lambda>(pool_nr, pool_name) data_vars.
     bind_exc (solve (base mr)) (\<lambda>soln.
     bind_exc (solve (base mr_14C)) (\<lambda>soln_14C.
     bind_exc (np_column soln pool_nr) (\<lambda>c12.
     bind_exc (np_column soln_14C pool_nr) (\<lambda>c14.
     bind_exc (np_elementwise F_Delta_14C c12 c14) (\<lambda>d.
       add_variable ds data_vars pool_name \<lparr>data = d, unit = stock_unit mdo\<rparr>))))))"

definition flux_step ::
  "dataset \<Rightarrow> (string \<Rightarrow> string) \<Rightarrow> fl list list Variable \<Rightarrow> fl list list Variable
     \<Rightarrow> nat \<times> string \<Rightarrow> (string \<times> data_array) list \<Rightarrow> exc + (string \<times> data_array) list" where
  "flux_step ds name_of fs fs_14C = (\<lambda>(pool_nr, pool_name) data_vars.
     bind_exc (np_column (data fs) pool_nr) (\<lambda>c12.
     bind_exc (np_column (data fs_14C) pool_nr) (\<lambda>c14.
     bind_exc (np_elementwise F_Delta_14C c12 c14) (\<lambda>d.
       add_variable ds data_vars (name_of pool_name) \<lparr>data = d, unit = unit fs\<rparr>))))"

definition internal_step ::
  "dataset \<Rightarrow> fl list list list Variable \<Rightarrow> fl list list list Variable
     \<Rightarrow> nat \<times> string \<Rightarrow> nat \<times> string
     \<Rightarrow> (string \<times> data_array) list \<Rightarrow> exc + (string \<times> data_array) list" where
  "internal_step ds Fs Fs_14C = (\<lambda>(pnr_from, pn_from) (pnr_to, pn_to) data_vars.
     bind_exc (np_column2 (data Fs) pnr_to pnr_from) (\<lambda>c12.
     bind_exc (np_column2 (data Fs_14C) pnr_to pnr_from) (\<lambda>c14.
     bind_exc (np_elementwise F_Delta_14C c12 c14) (\<lambda>d.
       add_variable ds data_vars (pn_from @ ''_to_'' @ pn_to) \<lparr>data = d, unit = unit Fs\<rparr>))))"

definition create_Delta_14C_dataset ::
  "ModelDataObject \<Rightarrow> dataset \<Rightarrow> model_run \<Rightarrow> model_run \<Rightarrow> exc + dataset" where
  "create_Delta_14C_dataset mdo ds mr mr_14C =
     (let ms = model_structure mdo;
          pools = enumerate 0 (pool_names ms);
          n = length (pool_names ms);
          k = int (length (times_mr (base mr))) - 1
      in
      \<comment> \<open>save stocks\<close>
      bind_exc (for_each (stock_step mdo ds mr mr_14C) pools []) (\<lambda>data_vars.
      \<comment> \<open>save external input fluxes\<close>
      bind_exc (monthly2 n k (external_input_vector (base mr))) (\<lambda>us_monthly.
      bind_exc (monthly2 n k (external_input_vector (base mr_14C))) (\<lambda>us_monthly_14C.
      let us = convert2 us_monthly ''g/d''; us_14C = convert2 us_monthly_14C ''g/d'' in
      bind_exc (for_each (flux_step ds (\<lambda>p. ''NPP_to_'' @ p) us us_14C) pools data_vars)
        (\<lambda>data_vars.
      \<comment> \<open>save internal fluxes\<close>
      bind_exc (monthly3 n k (internal_flux_matrix (base mr))) (\<lambda>Fs_monthly.
      bind_exc (monthly3 n k (internal_flux_matrix (base mr_14C))) (\<lambda>Fs_monthly_14C.
      let Fs = convert3 Fs_monthly ''g/d''; Fs_14C = convert3 Fs_monthly_14C ''g/d'' in
      bind_exc (for_each (\<lambda>from. for_each (internal_step ds Fs Fs_14C from) pools) pools data_vars)
        (\<lambda>data_vars.
      \<comment> \<open>save external output fluxes\<close>
      bind_exc (monthly2 n k (external_output_vector (base mr))) (\<lambda>rs_monthly.
      bind_exc (monthly2 n k (external_output_vector (base mr_14C))) (\<lambda>rs_monthly_14C.
      let rs = convert2 rs_monthly ''g/d''; rs_14C = convert2 rs_monthly_14C ''g/d'' in
      bind_exc (for_each (flux_step ds (\<lambda>p. p @ ''_to_RH'') rs rs_14C) pools data_vars)
        (\<lambda>data_vars.
      Dataset data_vars (coords ds) (ds_attrs ds))))))))))))"


section \<open>The 14C companion of a model run\<close>

definition t_conv :: "real \<Rightarrow> real" where
  "t_conv t = 2001 + (15 + t) / 365.25"

definition lamda :: real where
  "lamda = 0.0001209681"

definition nan_to_num :: "fl \<Rightarrow> fl" where
  \<comment> \<open>\<^verbatim>\<open>np.nan_to_num(x, posinf=0)\<close>: \<^verbatim>\<open>nan\<close> and \<^verbatim>\<open>neginf\<close> keep numpy's defaults, zero
      and the most negative finite double.\<close>
  "nan_to_num x =
     (case x of NaN \<Rightarrow> Fin 0 | PInf \<Rightarrow> Fin 0 | NInf \<Rightarrow> Fin (- float_max) | Fin r \<Rightarrow> Fin r)"

definition u14 :: "fl \<Rightarrow> real \<Rightarrow> fl" where
  \<comment> \<open>one entry of \<^verbatim>\<open>alpha * us_12C * (1 + 1/1000 * F)\<close>, where \<open>F\<close> is the curve's value\<close>
  "u14 u F = fl_mul (fl_mul (Fin alpha) u) (Fin (1 + 1 / 1000 * F))"

definition us_14C_raw :: "(real \<Rightarrow> real) \<Rightarrow> dmr \<Rightarrow> exc + fl list list" where
  \<comment> \<open>The rows of \<^verbatim>\<open>us_12C\<close> meet the column of curve values at \<^verbatim>\<open>dmr.times[:-1]\<close>;
      numpy broadcasts a single row or a single curve value.\<close>
  "us_14C_raw F_atm_delta_14C d =
     (let us_12C = external_input_vector d;
          Fs = map (\<lambda>t. F_atm_delta_14C (t_conv t)) (butlast (times_mr d))
      in if length us_12C = length Fs
         then Inr (map2 (\<lambda>row F. map (\<lambda>u. u14 u F) row) us_12C Fs)
         else if length Fs = 1
         then Inr (map (\<lambda>row. map (\<lambda>u. u14 u (hd Fs)) row) us_12C)
         else if length us_12C = 1
         then Inr (map (\<lambda>F. map (\<lambda>u. u14 u F) (hd us_12C)) Fs)
         else Inl (ValueError ''operands could not be broadcast together''))"

definition us_14C_of :: "(real \<Rightarrow> real) \<Rightarrow> dmr \<Rightarrow> exc + fl list list" where
  "us_14C_of F_atm_delta_14C d =
     bind_exc (us_14C_raw F_atm_delta_14C d) (\<lambda>a. Inr (map (map nan_to_num) a))"

fun map_exc :: "('a \<Rightarrow> exc + 'b) \<Rightarrow> 'a list \<Rightarrow> exc + 'b list" where
  "map_exc f [] = Inr []"
| "map_exc f (x # xs) =
     bind_exc (f x) (\<lambda>y. bind_exc (map_exc f xs) (\<lambda>ys. Inr (y # ys)))"

definition ncols :: "'a list list \<Rightarrow> nat" where
  "ncols a = (case a of [] \<Rightarrow> 0 | row # _ \<Rightarrow> length row)"

definition matmul :: "fl list list \<Rightarrow> fl list list \<Rightarrow> exc + fl list list" where
  "matmul a b =
     (if list_all (\<lambda>row. length row = length b) a
      then Inr (map (\<lambda>row. map (\<lambda>j. fl_sum (map2 fl_mul row (map (\<lambda>r. r ! j) b)))
                               [0..<ncols b]) a)
      else Inl (ValueError ''matmul: mismatch in its core dimension''))"

definition identity :: "nat \<Rightarrow> fl list list" where
  \<comment> \<open>\<^verbatim>\<open>np.identity(n)\<close>, \<^verbatim>\<open>np.eye(n)\<close>\<close>
  "identity n = map (\<lambda>i. map (\<lambda>j. Fin (if i = j then 1 else 0)) [0..<n]) [0..<n]"

definition scalar_times :: "real \<Rightarrow> fl list list \<Rightarrow> fl list list" where
  "scalar_times c a = map (map (fl_mul (Fin c))) a"

definition mat_binop ::
  "(fl \<Rightarrow> fl \<Rightarrow> fl) \<Rightarrow> fl list list \<Rightarrow> fl list list \<Rightarrow> exc + fl list list" where
  \<comment> \<open>elementwise on two matrices of one shape\<close>
  "mat_binop f a b =
     (if length a = length b \<and> list_all2 (\<lambda>r r'. length r = length r') a b
      then Inr (map2 (map2 f) a b)
      else Inl (ValueError ''operands could not be broadcast together''))"

text \<open>
  \<^verbatim>\<open>np.mean(rows, axis=0)\<close> divides the column sums by the number of rows. The mean of
  no rows is \<open>0/0\<close>: \<open>NaN\<close> in each of the \<open>n\<close> columns of an empty two-dimensional array.
\<close>

definition np_mean_axis0 :: "nat \<Rightarrow> fl list list \<Rightarrow> fl list" where
  "np_mean_axis0 n rows =
     (if rows = [] then replicate n NaN
      else map (\<lambda>j. fl_div (fl_sum (map (\<lambda>row. row ! j) rows)) (Fin (real (length rows))))
             [0..<ncols rows])"

text \<open>
  The mean of a Python list of matrices. For the empty list numpy returns the scalar
  \<open>NaN\<close>, which \<^verbatim>\<open>np.eye(n) - B0_14C\<close> broadcasts to the \<open>n \<times> n\<close> matrix of \<open>NaN\<close>.
\<close>

definition np_mean_mats :: "nat \<Rightarrow> fl list list list \<Rightarrow> fl list list" where
  "np_mean_mats n ms =
     (if ms = [] then replicate n (replicate n NaN)
      else map (\<lambda>i. map (\<lambda>j. fl_div (fl_sum (map (\<lambda>m. m ! i ! j) ms)) (Fin (real (length ms))))
                        [0..<ncols (hd ms)])
             [0..<length (hd ms)])"

definition step_decay :: real where
  \<comment> \<open>\<^verbatim>\<open>np.exp(-lamda*365.25/12)\<close>\<close>
  "step_decay = exp (- lamda * 365.25 / 12)"

definition B0_14C_dmr :: "dmr \<Rightarrow> exc + fl list list" where
  \<comment> \<open>V3: mean of 14C Bs\<close>
  "B0_14C_dmr d =
     bind_exc (map_exc (\<lambda>B. matmul B (scalar_times step_decay (identity (nr_pools d))))
                 (Bs d))
       (\<lambda>ms. Inr (np_mean_mats (nr_pools d) ms))"

definition load_dmr_14C :: "env \<Rightarrow> dmr \<Rightarrow> exc + dmr" where
  "load_dmr_14C env d =
     bind_exc (loadtxt_interp1d env) (\<lambda>F_atm_delta_14C.
     bind_exc (us_14C_of F_atm_delta_14C d) (\<lambda>us_14C.
     bind_exc (B0_14C_dmr d) (\<lambda>B0_14C.
     bind_exc (mat_binop fl_sub (identity (nr_pools d)) B0_14C) (\<lambda>a.
     bind_exc (linalg_solve env a (np_mean_axis0 (nr_pools d) us_14C)) (\<lambda>start_values_14C.
       dmr_to_14C_only env d start_values_14C us_14C)))))"

definition Fa_func :: "(real \<Rightarrow> real) \<Rightarrow> real \<Rightarrow> real" where
  "Fa_func F_atm_delta_14C t = alpha * (F_atm_delta_14C (t_conv t) / 1000 + 1)"

definition B0_14C_smr :: "smr \<Rightarrow> exc + fl list list" where
  "B0_14C_smr s =
     bind_exc (map_exc (\<lambda>t. mat_binop fl_add (B_func s t)
                               (scalar_times (- lamda * 365.25 / 12) (identity (nr_pools s))))
                 (butlast (times_mr s)))
       (\<lambda>ms. Inr (np_mean_mats (nr_pools s) ms))"

definition u0_14C_smr :: "(real \<Rightarrow> real) \<Rightarrow> smr \<Rightarrow> fl list" where
  "u0_14C_smr F_atm_delta_14C s =
     np_mean_axis0 (nr_pools s)
       (map (\<lambda>t. map (\<lambda>u. fl_mul u (Fin (Fa_func F_atm_delta_14C t)))
                   (external_input_vector_func s t))
          (butlast (times_mr s)))"

definition load_smr_14C :: "env \<Rightarrow> smr \<Rightarrow> exc + smr" where
  \<comment> \<open>With no time point but the last, both means are the scalar \<open>NaN\<close>, and
      \<^verbatim>\<open>np.linalg.solve\<close> rejects a zero-dimensional argument.\<close>
  "load_smr_14C env s =
     bind_exc (loadtxt_interp1d env) (\<lambda>F_atm_delta_14C.
     bind_exc (B0_14C_smr s) (\<lambda>B0_14C.
     let u0_14C = u0_14C_smr F_atm_delta_14C s in
     bind_exc (if butlast (times_mr s) = []
               then Inl (LinAlgError ''0-dimensional array given. Array must be at least two-dimensional'')
               else linalg_solve env (map (map fl_neg) B0_14C) u0_14C) (\<lambda>start_values_14C.
       smr_to_14C_only env s start_values_14C (Fa_func F_atm_delta_14C))))"

section \<open>The entry point\<close>

text \<open>
  \<^verbatim>\<open>load_Delta_14C_dataset(ds, method)\<close> receives the caller's dataset by reference. The
  model returns the caller's dataset as it is after the call together with the outcome:
  the returned dataset, or the exception that reaches the caller.
\<close>

record call_result =
  caller_ds :: dataset
  outcome :: "exc + dataset"

definition empty_var :: data_array where
  "empty_var = \<lparr>dims = [''ens'', ''lat'', ''lon''], shape = [0, 0, 0],
                vdata = Floats [], attrs = []\<rparr>"

definition empty_log :: data_array where
  "empty_log = \<lparr>dims = [''ens'', ''lat'', ''lon''], shape = [0, 0, 0],
                vdata = Strings [], attrs = []\<rparr>"

definition try_block :: "env \<Rightarrow> dataset \<Rightarrow> string \<Rightarrow> exc + dataset" where
  "try_block env ds method =
     bind_exc (load_mdo ds) (\<lambda>mdo.
     bind_exc
       (if method = ''discrete'' then
          bind_exc (create_discrete_model_run env mdo) (\<lambda>(mr, abs_err, rel_err).
          bind_exc (load_dmr_14C env mr) (\<lambda>mr_14C.
          bind_exc (solve mr) (\<lambda>soln.
          bind_exc (solve mr_14C) (\<lambda>soln_14C.
            Inr (DMR mr, DMR mr_14C, abs_err, rel_err)))))
        else if method = ''continuous'' then
          bind_exc (create_model_run env mdo) (\<lambda>(mr, abs_err, rel_err).
          bind_exc (load_smr_14C env mr) (\<lambda>mr_14C.
          bind_exc (solve mr) (\<lambda>soln.
          bind_exc (solve mr_14C) (\<lambda>soln_14C.
            Inr (SMR mr, SMR mr_14C, abs_err, rel_err)))))
        else Inl (NameError ''mr''))
       (\<lambda>(mr, mr_14C, abs_err, rel_err).
     bind_exc (create_Delta_14C_dataset mdo ds mr mr_14C) (\<lambda>ds_Delta_14C.
     \<comment> \<open>add reconstruction error\<close>
     bind_exc (np_max (data abs_err)) (\<lambda>max_abs.
     bind_exc (ds_setitem ds_Delta_14C ''max_abs_err''
                 (scalar_float max_abs
                    [(''units'', unit abs_err),
                     (''long_name'', ''max. abs. error on reconstructed stock sizes'')]))
       (\<lambda>ds_Delta_14C.
     bind_exc (np_max (data rel_err)) (\<lambda>max_rel.
       ds_setitem ds_Delta_14C ''max_rel_err''
         (scalar_float max_rel
            [(''units'', unit rel_err),
             (''long_name'', ''max. rel. error on reconstructed stock sizes'')])))))))"

definition except_DMRError :: "dataset \<Rightarrow> exc + dataset" where
  "except_DMRError ds =
     bind_exc (map_exc (\<lambda>(key, val). bind_exc (nan_times val) (\<lambda>v. Inr (key, v)))
                 (filter (\<lambda>(key, val). key \<noteq> ''time'') (data_vars ds))) (\<lambda>data_vars.
     bind_exc (ds_copy_data ds data_vars) (\<lambda>ds_Delta_14C.
     bind_exc (ds_setitem ds_Delta_14C ''max_abs_err'' (scalar_float NaN [])) (\<lambda>ds_Delta_14C.
       ds_setitem ds_Delta_14C ''max_rel_err'' (scalar_float NaN []))))"

definition load_Delta_14C_dataset :: "env \<Rightarrow> dataset \<Rightarrow> string \<Rightarrow> call_result" where
  "load_Delta_14C_dataset env ds method =
     (if method \<notin> set [''discrete'', ''continuous'']
      then \<lparr>caller_ds = ds,
            outcome = Inl (ValueError (''method must be either 'discrete' or 'continuous'' @ [CHR 0x27]))\<rparr>
      else
        case ds_getattr ds ''ens'' of
          Inl e \<Rightarrow> \<lparr>caller_ds = ds, outcome = Inl e\<rparr>
        | Inr ens \<Rightarrow>
            if shape ens = [0] then
              \<comment> \<open>fake return data structure on first call (with empty data)\<close>
              (case ds_setitem ds ''max_abs_err'' empty_var of
                 Inl e \<Rightarrow> \<lparr>caller_ds = ds, outcome = Inl e\<rparr>
               | Inr ds1 \<Rightarrow>
                  (case ds_setitem ds1 ''max_rel_err'' empty_var of
                     Inl e \<Rightarrow> \<lparr>caller_ds = ds1, outcome = Inl e\<rparr>
                   | Inr ds2 \<Rightarrow>
                      (case ds_setitem ds2 ''log'' empty_log of
                         Inl e \<Rightarrow> \<lparr>caller_ds = ds2, outcome = Inl e\<rparr>
                       | Inr ds3 \<Rightarrow> \<lparr>caller_ds = ds3, outcome = Inr ds3\<rparr>)))
            else
              \<lparr>caller_ds = ds,
               outcome =
                 bind_exc
                   (case try_block env ds method of
                      Inr ds_Delta_14C \<Rightarrow> Inr (ds_Delta_14C, [])
                    | Inl (DMRError msg) \<Rightarrow>
                        bind_exc (except_DMRError ds) (\<lambda>ds_Delta_14C. Inr (ds_Delta_14C, msg))
                    | Inl e \<Rightarrow> Inl e)
                   (\<lambda>(ds_Delta_14C, log). ds_setitem ds_Delta_14C ''log'' (scalar_string log))\<rparr>)"

section \<open>Conditions on datasets\<close>

text \<open>
  A variable \<open>var\<close> can be stored under \<open>name\<close> among the variables \<open>vs\<close> without a
  conflict of dimensions: each of its dimensions has the length it has in \<open>vs\<close>, none
  carries the name of a zero-dimensional variable, and a zero-dimensional \<open>var\<close> does not
  take the name of a dimension.
\<close>

definition fits_in :: "string \<Rightarrow> data_array \<Rightarrow> (string \<times> data_array) list \<Rightarrow> bool" where
  "fits_in name var vs \<longleftrightarrow>
     (\<forall>(d, n)\<in>set (zip (dims var) (shape var)).
        name \<noteq> d \<and>
        (\<forall>(k, v)\<in>set vs. k = d \<longrightarrow> dims v \<noteq> []) \<and>
        (\<forall>(d', n')\<in>set (dim_sizes vs). d' = d \<longrightarrow> n' = n) \<and>
        (\<forall>(d', n')\<in>set (zip (dims var) (shape var)). d' = d \<longrightarrow> n' = n)) \<and>
     (dims var = [] \<longrightarrow> name \<notin> fst ` set (dim_sizes vs))"

text \<open>
  The variables \<open>vs\<close> of a consistent dataset in which the dimensions \<^verbatim>\<open>ens\<close>, \<^verbatim>\<open>lat\<close>
  and \<^verbatim>\<open>lon\<close>, where they occur, have length zero, and no variable of one of these names
  is zero-dimensional.
\<close>

definition zero_batch :: "(string \<times> data_array) list \<Rightarrow> bool" where
  "zero_batch vs \<longleftrightarrow>
     dims_consistent vs \<and>
     (\<forall>(k, v)\<in>set vs. k \<in> {''ens'', ''lat'', ''lon''} \<longrightarrow> dims v \<noteq> []) \<and>
     (\<forall>(d, n)\<in>set (dim_sizes vs). d \<in> {''ens'', ''lat'', ''lon''} \<longrightarrow> n = 0)"





text \<open>
  The names under which \<^verbatim>\<open>create_Delta_14C_dataset\<close> offers a variable to
  \<^verbatim>\<open>add_variable\<close>, in the order of its loops: the pools, the external inputs, the
  internal fluxes of every ordered pair of pools, and the external outputs.
\<close>

definition candidate_names :: "string list \<Rightarrow> string list" where
  "candidate_names ps =
     ps @ map (\<lambda>p. ''NPP_to_'' @ p) ps
        @ concat (map (\<lambda>p. map (\<lambda>q. p @ ''_to_'' @ q) ps) ps)
        @ map (\<lambda>p. p @ ''_to_RH'') ps"

section \<open>Example inputs\<close>

text \<open>
  Concrete datasets, model runs and environments on which the properties below are
  evaluated.
\<close>

definition env_unavailable :: env where
  \<comment> \<open>an environment in which every outside call raises\<close>
  "env_unavailable =
     \<lparr>loadtxt_interp1d = Inl (OSError ''C14Atm_NH.csv not found''),
      create_discrete_model_run = (\<lambda>mdo. Inl (OSError ''unavailable'')),
      create_model_run = (\<lambda>mdo. Inl (OSError ''unavailable'')),
      linalg_solve = (\<lambda>a b. Inl (OSError ''unavailable'')),
      dmr_to_14C_only = (\<lambda>d x us. Inl (OSError ''unavailable'')),
      smr_to_14C_only = (\<lambda>s x Fa. Inl (OSError ''unavailable''))\<rparr>"

definition index_var :: "string \<Rightarrow> fl list \<Rightarrow> data_array" where
  \<comment> \<open>a one-dimensional coordinate along the dimension of its own name\<close>
  "index_var d xs = \<lparr>dims = [d], shape = [length xs], vdata = Floats xs, attrs = []\<rparr>"

definition ds_mock :: dataset where
  \<comment> \<open>a dataset all of whose dimensions have length zero\<close>
  "ds_mock =
     \<lparr>coords = [(''ens'', index_var ''ens'' []), (''lat'', index_var ''lat'' []),
                (''lon'', index_var ''lon'' []), (''time'', index_var ''time'' [])],
      data_vars = [(''Soil'', \<lparr>dims = [''ens'', ''lat'', ''lon'', ''time''],
                                shape = [0, 0, 0, 0], vdata = Floats [], attrs = []\<rparr>)],
      ds_attrs = []\<rparr>"


definition solve_1x1 :: "fl list list \<Rightarrow> fl list \<Rightarrow> exc + fl list" where
  \<comment> \<open>a linear solver for finite systems of one equation, raising on any other argument
      as \<^verbatim>\<open>np.linalg.solve\<close> does on a singular matrix\<close>
  "solve_1x1 a b =
     (case (a, b) of
        ([[Fin a11]], [Fin b1]) \<Rightarrow>
          if a11 = 0 then Inl (LinAlgError ''Singular matrix'') else Inr [Fin (b1 / a11)]
      | _ \<Rightarrow> Inl (LinAlgError ''Singular matrix''))"

definition dmr_one_pool :: "fl \<Rightarrow> fl \<Rightarrow> dmr" where
  \<comment> \<open>a discrete model run of one pool over one step, with the given transfer
      coefficient and external input\<close>
  "dmr_one_pool b u =
     \<lparr>times_mr = [0, 365.25 / 12], nr_pools = 1,
      solve = Inr [[Fin 10], [Fin 12]],
      external_input_vector = [[u]],
      internal_flux_matrix = [[[Fin 0]]],
      external_output_vector = [[Fin 1]],
      Bs = [[[b]]]\<rparr>"

definition smr_one_pool :: "fl \<Rightarrow> fl \<Rightarrow> smr" where
  \<comment> \<open>a smooth model run of one pool with constant rate and external input\<close>
  "smr_one_pool b u =
     \<lparr>times_mr = [0, 365.25 / 12], nr_pools = 1,
      solve = Inr [[Fin 10], [Fin 12]],
      external_input_vector = [[u]],
      internal_flux_matrix = [[[Fin 0]]],
      external_output_vector = [[Fin 1]],
      B_func = (\<lambda>t. [[b]]),
      external_input_vector_func = (\<lambda>t. [u])\<rparr>"

definition atm_curve :: "real \<Rightarrow> real" where
  \<comment> \<open>an atmospheric curve: 100 per mille in 2001, falling by 5 per mille a year\<close>
  "atm_curve y = 100 - 5 * (y - 2001)"

definition env_one_pool :: env where
  \<comment> \<open>an environment for systems of one pool: the curve is read, the reconstructions
      return fixed model runs with their errors, and the 14C-only model run is the given
      one with the 14C inputs and a fixed solution\<close>
  "env_one_pool =
     \<lparr>loadtxt_interp1d = Inr atm_curve,
      create_discrete_model_run =
        (\<lambda>mdo. Inr (dmr_one_pool (Fin 0.5) (Fin 2),
                     \<lparr>data = [Fin 0.1, Fin 0.2], unit = ''gC/m2''\<rparr>,
                     \<lparr>data = [Fin 1, Fin 2], unit = ''%''\<rparr>)),
      create_model_run =
        (\<lambda>mdo. Inr (smr_one_pool (Fin (- 0.5)) (Fin 2),
                     \<lparr>data = [Fin 0.1, Fin 0.2], unit = ''gC/m2''\<rparr>,
                     \<lparr>data = [Fin 1, Fin 2], unit = ''%''\<rparr>)),
      linalg_solve = solve_1x1,
      dmr_to_14C_only =
        (\<lambda>d x us. Inr (d\<lparr>solve := Inr [x, x], external_input_vector := us\<rparr>)),
      smr_to_14C_only = (\<lambda>s x Fa. Inr (s\<lparr>solve := Inr [x, x]\<rparr>))\<rparr>"





definition ds_site :: dataset where
  \<comment> \<open>one ensemble member at one site, two months, the soil pool and its respiration\<close>
  "ds_site =
     \<lparr>coords = [(''time'', index_var ''time'' [Fin 0, Fin 1]),
                (''ens'', scalar_float (Fin 0) []),
                (''lat'', scalar_float (Fin 50) []),
                (''lon'', scalar_float (Fin 11) [])],
      data_vars =
        [(''Soil'', \<lparr>dims = [''time''], shape = [2], vdata = Floats [Fin 10, Fin 12],
                       attrs = [(''units'', ''gC/m2'')]\<rparr>),
         (''Soil_to_RH'', \<lparr>dims = [''time''], shape = [2], vdata = Floats [Fin 1, Fin 1],
                             attrs = [(''units'', ''gC/m2/d'')]\<rparr>),
         (''GPP'', \<lparr>dims = [''time''], shape = [2], vdata = Floats [Fin 3, Fin 4],
                      attrs = [(''units'', ''gC/m2/d'')]\<rparr>)],
      ds_attrs = [(''title'', ''CARDAMOM'')]\<rparr>"

definition mdo_soil :: ModelDataObject where
  \<comment> \<open>a model data object over \<open>ds_site\<close> whose model structure has the soil pool only\<close>
  "mdo_soil =
     \<lparr>model_structure =
        \<lparr>pool_structure = [(''Soil'', ''Soil'')],
         external_input_structure = [],
         horizontal_structure = [],
         vertical_structure = [],
         external_output_structure = [(''Soil'', [''Soil_to_RH''])]\<rparr>,
      mdo_dataset = ds_site,
      stock_unit = ''gC/m2'',
      time = \<lparr>data = [0, 365.25 / 12], unit = ''d''\<rparr>\<rparr>"

definition dmr_14C_one_pool :: dmr where
  \<comment> \<open>a 14C model run whose stocks and fluxes are \<open>alpha\<close> times those of
      \<open>dmr_one_pool (Fin 0.5) (Fin 2)\<close>\<close>
  "dmr_14C_one_pool =
     \<lparr>times_mr = [0, 365.25 / 12], nr_pools = 1,
      solve = Inr [[Fin (10 * alpha)], [Fin (12 * alpha)]],
      external_input_vector = [[Fin (2 * alpha)]],
      internal_flux_matrix = [[[Fin 0]]],
      external_output_vector = [[Fin alpha]],
      Bs = [[[Fin 0.5]]]\<rparr>"

section \<open>Properties of the dataset operations\<close>


lemma set_update_subset: "set (AList.update k v al) \<subseteq> insert (k, v) (set al)"
  by (induction al) auto

lemma set_dim_sizes:
  "set (dim_sizes vs) = (\<Union>(k, v)\<in>set vs. set (zip (dims v) (shape v)))"
  by (auto simp: dim_sizes_def)

lemma dims_consistent_iff:
  "dims_consistent vs \<longleftrightarrow>
     (\<forall>(d, n)\<in>set (dim_sizes vs).
        (\<forall>(k, v)\<in>set vs. k = d \<longrightarrow> dims v \<noteq> []) \<and>
        (\<forall>(d', n')\<in>set (dim_sizes vs). d' = d \<longrightarrow> n' = n))"
  by (simp add: dims_consistent_def list_all_iff)

lemma dims_consistent_insert:
  assumes c: "dims_consistent vs"
    and sub: "set vs' \<subseteq> insert (name, var) (set vs)"
    and f: "fits_in name var vs"
  shows "dims_consistent vs'"
proof -
  have ds: "set (dim_sizes vs') \<subseteq> set (zip (dims var) (shape var)) \<union> set (dim_sizes vs)"
    using sub by (fastforce simp: set_dim_sizes)
  show ?thesis
    unfolding dims_consistent_iff
  proof (intro ballI, clarify, intro conjI ballI; clarify)
    fix d n k v
    assume dn: "(d, n) \<in> set (dim_sizes vs')" and kv: "(d, v) \<in> set vs'" and e: "dims v = []"
    from dn ds have "(d, n) \<in> set (zip (dims var) (shape var)) \<or> (d, n) \<in> set (dim_sizes vs)"
      by auto
    moreover from kv sub have "(d, v) = (name, var) \<or> (d, v) \<in> set vs" by auto
    ultimately show False
      using c f e unfolding dims_consistent_iff fits_in_def
      by (fastforce simp: image_iff)
  next
    fix d n d' n'
    assume dn: "(d, n) \<in> set (dim_sizes vs')" and dn': "(d, n') \<in> set (dim_sizes vs')"
    from dn ds have 1: "(d, n) \<in> set (zip (dims var) (shape var)) \<or> (d, n) \<in> set (dim_sizes vs)"
      by auto
    from dn' ds have 2: "(d, n') \<in> set (zip (dims var) (shape var)) \<or> (d, n') \<in> set (dim_sizes vs)"
      by auto
    from c have cc: "\<And>a b b'. (a, b) \<in> set (dim_sizes vs) \<Longrightarrow> (a, b') \<in> set (dim_sizes vs) \<Longrightarrow> b' = b"
      unfolding dims_consistent_iff by blast
    from f have f1: "\<And>a b b'. (a, b) \<in> set (zip (dims var) (shape var)) \<Longrightarrow> (a, b') \<in> set (dim_sizes vs) \<Longrightarrow> b' = b"
      and f2: "\<And>a b b'. (a, b) \<in> set (zip (dims var) (shape var)) \<Longrightarrow> (a, b') \<in> set (zip (dims var) (shape var)) \<Longrightarrow> b' = b"
      unfolding fits_in_def by blast+
    from 1 2 show "n' = n"
      using cc f1 f2 by metis
  qed
qed

lemma variables_put_subset:
  "set (variables (ds_put ds name var)) \<subseteq> insert (name, var) (set (variables ds))"
  using set_update_subset[of name var "coords ds"] set_update_subset[of name var "data_vars ds"]
  by (auto simp: ds_put_def variables_def)

lemma ds_setitem_fits:
  assumes "dims_consistent (variables ds)" "fits_in name var (variables ds)"
  shows "ds_setitem ds name var = Inr (ds_put ds name var)"
  using dims_consistent_insert[OF assms(1) variables_put_subset assms(2)]
  by (simp add: ds_setitem_def ds_put_def Let_def)



lemma fits_in_empty:
  assumes "dims var = [''ens'', ''lat'', ''lon'']" "shape var = [0, 0, 0]"
    and "name \<notin> {''ens'', ''lat'', ''lon''}"
    and "\<forall>(k, v)\<in>set vs. k \<in> {''ens'', ''lat'', ''lon''} \<longrightarrow> dims v \<noteq> []"
    and "\<forall>(d, n)\<in>set (dim_sizes vs). d \<in> {''ens'', ''lat'', ''lon''} \<longrightarrow> n = 0"
  shows "fits_in name var vs"
  using assms unfolding fits_in_def by auto

lemma setitem_empty:
  assumes z: "zero_batch (variables ds)"
    and v: "dims var = [''ens'', ''lat'', ''lon'']" "shape var = [0, 0, 0]"
    and n: "name \<notin> {''ens'', ''lat'', ''lon''}"
  shows "ds_setitem ds name var = Inr (ds_put ds name var) \<and> zero_batch (variables (ds_put ds name var))"
proof -
  have f: "fits_in name var (variables ds)"
    using z v n unfolding zero_batch_def by (intro fits_in_empty) auto
  have c: "dims_consistent (variables ds)" using z by (simp add: zero_batch_def)
  have 1: "ds_setitem ds name var = Inr (ds_put ds name var)"
    by (rule ds_setitem_fits[OF c f])
  have c': "dims_consistent (variables (ds_put ds name var))"
    by (rule dims_consistent_insert[OF c variables_put_subset f])
  have sub: "set (variables (ds_put ds name var)) \<subseteq> insert (name, var) (set (variables ds))"
    by (rule variables_put_subset)
  have 2: "\<forall>(k, w)\<in>set (variables (ds_put ds name var)). k \<in> {''ens'', ''lat'', ''lon''} \<longrightarrow> dims w \<noteq> []"
    using sub z v n unfolding zero_batch_def by fastforce
  have "set (dim_sizes (variables (ds_put ds name var)))
          \<subseteq> set (zip (dims var) (shape var)) \<union> set (dim_sizes (variables ds))"
    using sub by (fastforce simp: set_dim_sizes)
  then have 3: "\<forall>(d, m)\<in>set (dim_sizes (variables (ds_put ds name var))). d \<in> {''ens'', ''lat'', ''lon''} \<longrightarrow> m = 0"
    using z v unfolding zero_batch_def by fastforce
  show ?thesis using 1 c' 2 3 by (simp add: zero_batch_def)
qed











section \<open>The Delta 14C diagnostic: C7, C8, C9\<close>



















section \<open>The entry point: C4, C3, C2\<close>

text \<open>
  C4: a method other than \<^verbatim>\<open>'discrete'\<close> and \<^verbatim>\<open>'continuous'\<close> raises \<^verbatim>\<open>ValueError\<close>, which
  reaches the caller. The result is the same for every dataset and every environment:
  nothing is read from the dataset, nothing outside is called, and the caller's dataset
  is as it was.
\<close>

theorem invalid_method_raises:
  assumes "method \<noteq> ''discrete''" and "method \<noteq> ''continuous''"
  shows "load_Delta_14C_dataset env ds method =
           \<lparr>caller_ds = ds,
            outcome = Inl (ValueError (''method must be either 'discrete' or 'continuous''
                                        @ [CHR 0x27]))\<rparr>"
  using assms by (simp add: load_Delta_14C_dataset_def)

theorem invalid_method_raises_witness:
  "load_Delta_14C_dataset env_unavailable ds_mock ''monthly'' =
     \<lparr>caller_ds = ds_mock,
      outcome = Inl (ValueError (''method must be either 'discrete' or 'continuous''
                                  @ [CHR 0x27]))\<rparr>"
  using invalid_method_raises [of "''monthly''" env_unavailable ds_mock] by simp


lemma empty_path:
  assumes m: "method = ''discrete'' \<or> method = ''continuous''"
    and e: "ds_getattr ds ''ens'' = Inr ens" "shape ens = [0]"
    and z: "zero_batch (variables ds)"
  shows "load_Delta_14C_dataset env ds method =
           \<lparr>caller_ds = ds_put (ds_put (ds_put ds ''max_abs_err'' empty_var)
                                  ''max_rel_err'' empty_var) ''log'' empty_log,
            outcome = Inr (ds_put (ds_put (ds_put ds ''max_abs_err'' empty_var)
                                     ''max_rel_err'' empty_var) ''log'' empty_log)\<rparr>"
proof -
  let ?ds1 = "ds_put ds ''max_abs_err'' empty_var"
  let ?ds2 = "ds_put ?ds1 ''max_rel_err'' empty_var"
  have 1: "ds_setitem ds ''max_abs_err'' empty_var = Inr ?ds1 \<and> zero_batch (variables ?ds1)"
    by (rule setitem_empty[OF z]) (simp_all add: empty_var_def)
  then have 2: "ds_setitem ?ds1 ''max_rel_err'' empty_var = Inr ?ds2
                  \<and> zero_batch (variables ?ds2)"
    by (intro setitem_empty) (simp_all add: empty_var_def)
  then have 3: "ds_setitem ?ds2 ''log'' empty_log = Inr (ds_put ?ds2 ''log'' empty_log)"
    using setitem_empty[of ?ds2 empty_log "''log''"] by (simp add: empty_log_def)
  show ?thesis
    using m e 1 2 3 by (auto simp: load_Delta_14C_dataset_def)
qed


lemma zero_batch_ds_mock: "zero_batch (variables ds_mock)"
  by (simp add: zero_batch_def dims_consistent_def dim_sizes_def variables_def ds_mock_def
        index_var_def)


text \<open>
  C2: on the empty-batch path the three variables are stored in the caller's own dataset,
  which the call then returns. After the call the caller's \<^verbatim>\<open>ds\<close> is not what it was.
\<close>

theorem empty_batch_mutates_caller_dataset:
  "caller_ds (load_Delta_14C_dataset env_unavailable ds_mock ''discrete'') \<noteq> ds_mock \<and>
   map fst (data_vars ds_mock) = [''Soil''] \<and>
   map fst (data_vars (caller_ds (load_Delta_14C_dataset env_unavailable ds_mock ''discrete'')))
     = [''Soil'', ''max_abs_err'', ''max_rel_err'', ''log''] \<and>
   outcome (load_Delta_14C_dataset env_unavailable ds_mock ''discrete'')
     = Inr (caller_ds (load_Delta_14C_dataset env_unavailable ds_mock ''discrete''))"
proof -
  have e: "ds_getattr ds_mock ''ens'' = Inr (index_var ''ens'' [])"
    by (simp add: ds_getattr_def variables_def ds_mock_def)
  have s: "shape (index_var ''ens'' []) = [0]"
    by (simp add: index_var_def)
  have "load_Delta_14C_dataset env_unavailable ds_mock ''discrete'' =
          \<lparr>caller_ds = ds_put (ds_put (ds_put ds_mock ''max_abs_err'' empty_var)
                                 ''max_rel_err'' empty_var) ''log'' empty_log,
           outcome = Inr (ds_put (ds_put (ds_put ds_mock ''max_abs_err'' empty_var)
                                    ''max_rel_err'' empty_var) ''log'' empty_log)\<rparr>"
    by (rule empty_path[OF _ e s zero_batch_ds_mock]) simp
  moreover have "data_vars (ds_put (ds_put (ds_put ds_mock ''max_abs_err'' empty_var)
                    ''max_rel_err'' empty_var) ''log'' empty_log)
                 = data_vars ds_mock @ [(''max_abs_err'', empty_var),
                      (''max_rel_err'', empty_var), (''log'', empty_log)]"
    by (simp add: ds_put_def ds_mock_def)
  ultimately show ?thesis
    by (auto simp: ds_mock_def)
qed

text \<open>
  On every other path the caller's dataset is left as it was.
\<close>

lemma caller_dataset_unchanged_off_empty_path:
  assumes "\<forall>ens. ds_getattr ds ''ens'' = Inr ens \<longrightarrow> shape ens \<noteq> [0]"
  shows "caller_ds (load_Delta_14C_dataset env ds method) = ds"
  using assms
  by (cases "ds_getattr ds ''ens''") (auto simp: load_Delta_14C_dataset_def)

section \<open>The 14C external input: C5\<close>

lemma us_14C_raw_same_length:
  assumes "length (external_input_vector d) = length (butlast (times_mr d))"
  shows "us_14C_raw F d =
           Inr (map2 (\<lambda>row c. map (\<lambda>u. u14 u c) row) (external_input_vector d)
                  (map (\<lambda>t. F (t_conv t)) (butlast (times_mr d))))"
  using assms by (simp add: us_14C_raw_def Let_def)

lemma us_14C_of_entry:
  assumes l: "length (external_input_vector d) = length (butlast (times_mr d))"
    and k: "k < length (external_input_vector d)"
    and j: "j < length (external_input_vector d ! k)"
  shows "\<exists>us. us_14C_of F d = Inr us \<and> length us = length (external_input_vector d) \<and>
           us ! k ! j = nan_to_num (u14 (external_input_vector d ! k ! j)
                                      (F (t_conv (times_mr d ! k))))"
proof -
  let ?raw = "map2 (\<lambda>row c. map (\<lambda>u. u14 u c) row) (external_input_vector d)
                (map (\<lambda>t. F (t_conv t)) (butlast (times_mr d)))"
  have 1: "us_14C_of F d = Inr (map (map nan_to_num) ?raw)"
    using us_14C_raw_same_length[OF l] by (simp add: us_14C_of_def bind_exc_def)
  have 2: "length ?raw = length (external_input_vector d)"
    using l by simp
  have 3: "?raw ! k = map (\<lambda>u. u14 u (F (t_conv (times_mr d ! k)))) (external_input_vector d ! k)"
    using l k by (simp add: nth_butlast)
  show ?thesis
    using 1 2 3 k j by simp
qed

lemma load_dmr_14C_Inr:
  assumes "load_dmr_14C env d = Inr d14"
  shows "\<exists>F us B0 a x0.
           loadtxt_interp1d env = Inr F \<and> us_14C_of F d = Inr us \<and>
           B0_14C_dmr d = Inr B0 \<and>
           mat_binop fl_sub (identity (nr_pools d)) B0 = Inr a \<and>
           linalg_solve env a (np_mean_axis0 (nr_pools d) us) = Inr x0 \<and>
           dmr_to_14C_only env d x0 us = Inr d14"
  using assms by (auto simp: load_dmr_14C_def bind_exc_def split: sum.splits)

lemma step_decay_bounds: "0 < step_decay \<and> step_decay < 1"
  by (simp add: step_decay_def lamda_def)

lemma B0_14C_dmr_one_pool:
  "B0_14C_dmr (dmr_one_pool (Fin b) u) = Inr [[Fin (b * step_decay)]]"
  by (simp add: B0_14C_dmr_def dmr_one_pool_def bind_exc_def matmul_def scalar_times_def
       identity_def ncols_def fl_sum_def np_mean_mats_def)

lemma load_dmr_14C_one_pool:
  "\<exists>x. load_dmr_14C env_one_pool (dmr_one_pool (Fin 0.5) (Fin 2)) =
     Inr ((dmr_one_pool (Fin 0.5) (Fin 2))\<lparr>solve := Inr [[Fin x], [Fin x]],
        external_input_vector := [[Fin (alpha * 2 * (1 + atm_curve (t_conv 0) / 1000))]]\<rparr>)"
  using step_decay_bounds
  apply (simp add: load_dmr_14C_def B0_14C_dmr_one_pool bind_exc_def)
  apply (simp add: env_one_pool_def us_14C_of_def us_14C_raw_def bind_exc_def u14_def
      nan_to_num_def mat_binop_def identity_def fl_sub_def np_mean_axis0_def ncols_def
      fl_sum_def solve_1x1_def dmr_one_pool_def)
  done

text \<open>
  C5, as stated, fails: an entry that is negative infinity is not replaced by zero.
  \<^verbatim>\<open>np.nan_to_num(us_14C, posinf=0, copy=False)\<close> names only \<^verbatim>\<open>posinf\<close>, so negative
  infinity becomes the most negative finite double.
\<close>

theorem us_14C_neginf_not_zero:
  "u14 NInf (atm_curve (t_conv 0)) = NInf \<and>
   us_14C_of atm_curve (dmr_one_pool (Fin 0.5) NInf) = Inr [[Fin (- float_max)]] \<and>
   Fin (- float_max) \<noteq> Fin 0"
  by (simp add: us_14C_of_def us_14C_raw_def dmr_one_pool_def bind_exc_def u14_def
        nan_to_num_def alpha_def atm_curve_def t_conv_def float_max_def)

text \<open>
  C5, amended: for every time step \<open>k\<close> the 14C external input of the discrete companion
  system is, entry by entry, \<open>alpha * u12 * (1 + ForcingCurve/1000)\<close> with the curve taken
  at the calendar time \<open>2001 + (15 + t\<^sub>k)/365.25\<close> of the \<open>k\<close>-th time of the model run;
  an entry that is positive infinity or \<open>NaN\<close> is replaced by zero, and an entry that is
  negative infinity by the most negative finite double.
\<close>

theorem us_14C_entries:
  assumes "load_dmr_14C env d = Inr d14"
    and "length (external_input_vector d) = length (butlast (times_mr d))"
    and "k < length (external_input_vector d)"
    and "j < length (external_input_vector d ! k)"
  shows "\<exists>F us x0 raw.
           loadtxt_interp1d env = Inr F \<and> dmr_to_14C_only env d x0 us = Inr d14 \<and>
           raw = fl_mul (fl_mul (Fin alpha) (external_input_vector d ! k ! j))
                   (Fin (1 + 1 / 1000 * F (2001 + (15 + times_mr d ! k) / 365.25))) \<and>
           (\<forall>u. external_input_vector d ! k ! j = Fin u \<longrightarrow>
                  raw = Fin (alpha * u * (1 + F (2001 + (15 + times_mr d ! k) / 365.25) / 1000))) \<and>
           (\<forall>r. raw = Fin r \<longrightarrow> us ! k ! j = Fin r) \<and>
           (raw = PInf \<or> raw = NaN \<longrightarrow> us ! k ! j = Fin 0) \<and>
           (raw = NInf \<longrightarrow> us ! k ! j = Fin (- float_max))"
proof -
  from load_dmr_14C_Inr[OF assms(1)] obtain F us x0 where
    F: "loadtxt_interp1d env = Inr F" and us: "us_14C_of F d = Inr us"
    and d14: "dmr_to_14C_only env d x0 us = Inr d14"
    by blast
  let ?raw = "u14 (external_input_vector d ! k ! j) (F (t_conv (times_mr d ! k)))"
  have e: "us ! k ! j = nan_to_num ?raw"
    using us_14C_of_entry[OF assms(2,3,4), of F] us by auto
  have r: "?raw = fl_mul (fl_mul (Fin alpha) (external_input_vector d ! k ! j))
                    (Fin (1 + 1 / 1000 * F (2001 + (15 + times_mr d ! k) / 365.25)))"
    by (simp add: u14_def t_conv_def)
  show ?thesis
    apply (intro exI[of _ F] exI[of _ us] exI[of _ x0] exI[of _ ?raw])
    using F d14 e r by (auto simp: nan_to_num_def)
qed

theorem us_14C_entries_witness:
  "\<exists>d14 us x0.
     load_dmr_14C env_one_pool (dmr_one_pool (Fin 0.5) (Fin 2)) = Inr d14 \<and>
     dmr_to_14C_only env_one_pool (dmr_one_pool (Fin 0.5) (Fin 2)) x0 us = Inr d14 \<and>
     us ! 0 ! 0 = Fin (alpha * 2 * (1 + atm_curve (2001 + 15 / 365.25) / 1000))"
proof -
  obtain d14 where l: "load_dmr_14C env_one_pool (dmr_one_pool (Fin 0.5) (Fin 2)) = Inr d14"
    using load_dmr_14C_one_pool by blast
  have F: "loadtxt_interp1d env_one_pool = Inr atm_curve"
    by (simp add: env_one_pool_def)
  from us_14C_entries[OF l, of 0 0] F show ?thesis
    using l by (auto simp: dmr_one_pool_def)
qed

section \<open>Means of matrices\<close>
























section \<open>The equilibrium start values: C6\<close>







section \<open>Failure of the reconstruction or of the equilibrium solve: C1\<close>











section \<open>Which variables the result has: C10\<close>

lemma add_variable_keys:
  assumes "add_variable ds dvs n v = Inr dvs'"
  shows "fst ` set dvs' = fst ` set dvs \<union> ({n} \<inter> fst ` set (variables ds))"
proof (cases "map_of (variables ds) n")
  case None
  then have "n \<notin> fst ` set (variables ds)" by (simp add: map_of_eq_None_iff)
  with None assms show ?thesis by (simp add: add_variable_def)
next
  case (Some var_ds)
  then have "n \<in> fst ` set (variables ds)"
    by (metis map_of_eq_None_iff option.distinct(1))
  from Some assms obtain var where "dvs' = AList.update n var dvs"
    by (auto simp: add_variable_def bind_exc_def split: sum.splits)
  then have "fst ` set dvs' = {n} \<union> fst ` set dvs"
    by (simp only: AList.dom_update)
  with \<open>n \<in> fst ` set (variables ds)\<close> show ?thesis by blast
qed

lemma for_each_keys:
  assumes "\<And>x s s'. x \<in> set xs \<Longrightarrow> body x s = Inr s' \<Longrightarrow> fst ` set s' = fst ` set s \<union> (N x \<inter> V)"
    and "for_each body xs s = Inr s'"
  shows "fst ` set s' = fst ` set s \<union> ((\<Union>x\<in>set xs. N x) \<inter> V)"
  using assms
proof (induction xs arbitrary: s)
  case Nil
  then show ?case by simp
next
  case (Cons x xs)
  from Cons.prems(2) obtain s1 where 1: "body x s = Inr s1" and 2: "for_each body xs s1 = Inr s'"
    by (auto simp: bind_exc_def split: sum.splits)
  have "fst ` set s1 = fst ` set s \<union> (N x \<inter> V)"
    using Cons.prems(1)[OF _ 1] by simp
  moreover have "fst ` set s' = fst ` set s1 \<union> ((\<Union>x\<in>set xs. N x) \<inter> V)"
    using Cons.IH[OF _ 2] Cons.prems(1) by simp
  ultimately show ?case by auto
qed

lemma stock_step_keys:
  assumes "stock_step mdo ds mr mr_14C x s = Inr s'"
  shows "fst ` set s' = fst ` set s \<union> ({snd x} \<inter> fst ` set (variables ds))"
  using assms
  by (cases x) (auto simp: stock_step_def bind_exc_def split: sum.splits dest!: add_variable_keys)

lemma flux_step_keys:
  assumes "flux_step ds name_of fs fs_14C x s = Inr s'"
  shows "fst ` set s' = fst ` set s \<union> ({name_of (snd x)} \<inter> fst ` set (variables ds))"
  using assms
  by (cases x) (auto simp: flux_step_def bind_exc_def split: sum.splits dest!: add_variable_keys)

lemma internal_step_keys:
  assumes "internal_step ds Fs Fs_14C x y s = Inr s'"
  shows "fst ` set s' = fst ` set s \<union> ({snd x @ ''_to_'' @ snd y} \<inter> fst ` set (variables ds))"
  using assms
  by (cases x; cases y)
     (auto simp: internal_step_def bind_exc_def split: sum.splits dest!: add_variable_keys)

lemma snd_enumerate: "snd ` set (enumerate n xs) = set xs"
  by (induction xs arbitrary: n) (auto simp: image_iff)


lemma Union_enumerate: "(\<Union>x\<in>set (enumerate n xs). {f (snd x)}) = f ` set xs"
proof -
  have "(\<Union>x\<in>set (enumerate n xs). {f (snd x)}) = f ` snd ` set (enumerate n xs)"
    by auto
  then show ?thesis by (simp only: snd_enumerate)
qed

lemma Dataset_Inr:
  assumes "Dataset dvs cs as = Inr res"
  shows "data_vars res = dvs \<and> coords res = cs \<and> ds_attrs res = as"
  using assms by (auto simp: Dataset_def split: if_splits)

lemma create_Delta_14C_dataset_keys:
  assumes "create_Delta_14C_dataset mdo ds mr mr_14C = Inr res"
  shows "fst ` set (data_vars res)
           = set (candidate_names (pool_names (model_structure mdo))) \<inter> fst ` set (variables ds)
         \<and> coords res = coords ds"
proof -
  let ?ps = "pool_names (model_structure mdo)"
  let ?pools = "enumerate 0 ?ps"
  let ?V = "fst ` set (variables ds)"
  have "\<exists>s1 s2 s3 s4 us us14 Fs Fs14 rs rs14.
          for_each (stock_step mdo ds mr mr_14C) ?pools [] = Inr s1 \<and>
          for_each (flux_step ds (\<lambda>p. ''NPP_to_'' @ p) us us14) ?pools s1 = Inr s2 \<and>
          for_each (\<lambda>from. for_each (internal_step ds Fs Fs14 from) ?pools) ?pools s2 = Inr s3 \<and>
          for_each (flux_step ds (\<lambda>p. p @ ''_to_RH'') rs rs14) ?pools s3 = Inr s4 \<and>
          Dataset s4 (coords ds) (ds_attrs ds) = Inr res"
    using assms unfolding create_Delta_14C_dataset_def Let_def bind_exc_def
    apply (simp only: sum.case sum.distinct split: sum.splits)
    apply (intro exI conjI)
        apply (rule refl | assumption)+
    done
  then obtain s1 s2 s3 s4 us us14 Fs Fs14 rs rs14 where
    1: "for_each (stock_step mdo ds mr mr_14C) ?pools [] = Inr s1"
    and 2: "for_each (flux_step ds (\<lambda>p. ''NPP_to_'' @ p) us us14) ?pools s1 = Inr s2"
    and 3: "for_each (\<lambda>from. for_each (internal_step ds Fs Fs14 from) ?pools) ?pools s2 = Inr s3"
    and 4: "for_each (flux_step ds (\<lambda>p. p @ ''_to_RH'') rs rs14) ?pools s3 = Inr s4"
    and 5: "Dataset s4 (coords ds) (ds_attrs ds) = Inr res"
    by blast
  have k1: "fst ` set s1 = set ?ps \<inter> ?V"
    using for_each_keys[where N = "\<lambda>x. {snd x}" and V = ?V, OF stock_step_keys 1]
    by (simp add: Union_enumerate[where f = "\<lambda>p. p"])
  have k2: "fst ` set s2 = fst ` set s1 \<union> ((\<lambda>p. ''NPP_to_'' @ p) ` set ?ps \<inter> ?V)"
    using for_each_keys[where N = "\<lambda>x. {''NPP_to_'' @ snd x}" and V = ?V, OF flux_step_keys[of ds "\<lambda>p. ''NPP_to_'' @ p" us us14] 2]
    by (simp only: Union_enumerate[where f = "\<lambda>p. ''NPP_to_'' @ p"])
  have inner: "\<And>x s s'. for_each (internal_step ds Fs Fs14 x) ?pools s = Inr s' \<Longrightarrow>
                 fst ` set s' = fst ` set s \<union> ((\<lambda>q. snd x @ ''_to_'' @ q) ` set ?ps \<inter> ?V)"
  proof -
    fix x s s'
    assume a: "for_each (internal_step ds Fs Fs14 x) ?pools s = Inr s'"
    show "fst ` set s' = fst ` set s \<union> ((\<lambda>q. snd x @ ''_to_'' @ q) ` set ?ps \<inter> ?V)"
      using for_each_keys[where N = "\<lambda>y. {snd x @ ''_to_'' @ snd y}" and V = ?V,
              OF internal_step_keys[of ds Fs Fs14 x] a]
      by (simp only: Union_enumerate[where f = "\<lambda>q. snd x @ ''_to_'' @ q"])
  qed
  have k3: "fst ` set s3 = fst ` set s2
              \<union> ((\<Union>x\<in>set ?pools. (\<lambda>q. snd x @ ''_to_'' @ q) ` set ?ps) \<inter> ?V)"
    using for_each_keys[where N = "\<lambda>x. (\<lambda>q. snd x @ ''_to_'' @ q) ` set ?ps" and V = ?V,
            OF inner 3] .
  have u3: "(\<Union>x\<in>set ?pools. (\<lambda>q. snd x @ ''_to_'' @ q) ` set ?ps)
              = (\<Union>p\<in>set ?ps. (\<lambda>q. p @ ''_to_'' @ q) ` set ?ps)"
  proof -
    have "(\<Union>x\<in>set ?pools. (\<lambda>q. snd x @ ''_to_'' @ q) ` set ?ps)
            = (\<Union>p\<in>snd ` set ?pools. (\<lambda>q. p @ ''_to_'' @ q) ` set ?ps)"
      by blast
    then show ?thesis by (simp only: snd_enumerate)
  qed
  have k4: "fst ` set s4 = fst ` set s3 \<union> ((\<lambda>p. p @ ''_to_RH'') ` set ?ps \<inter> ?V)"
    using for_each_keys[where N = "\<lambda>x. {snd x @ ''_to_RH''}" and V = ?V, OF flux_step_keys[of ds "\<lambda>p. p @ ''_to_RH''" rs rs14] 4]
    by (simp only: Union_enumerate[where f = "\<lambda>p. p @ ''_to_RH''"])
  have c: "set (candidate_names ?ps)
             = set ?ps \<union> (\<lambda>p. ''NPP_to_'' @ p) ` set ?ps
               \<union> (\<Union>p\<in>set ?ps. (\<lambda>q. p @ ''_to_'' @ q) ` set ?ps)
               \<union> (\<lambda>p. p @ ''_to_RH'') ` set ?ps"
    by (auto simp: candidate_names_def)
  have "fst ` set s4 = set (candidate_names ?ps) \<inter> ?V"
    unfolding c k4 k3 u3 k2 k1 by blast
  with Dataset_Inr[OF 5] show ?thesis by simp
qed

lemma create_Delta_14C_dataset_soil:
  "\<exists>res. create_Delta_14C_dataset mdo_soil ds_site (DMR (dmr_one_pool (Fin 0.5) (Fin 2)))
            (DMR dmr_14C_one_pool) = Inr res \<and>
         map fst (data_vars res) = [''Soil'', ''Soil_to_RH'']"
  by (simp add: create_Delta_14C_dataset_def mdo_soil_def pool_names_def ds_site_def
        dmr_one_pool_def dmr_14C_one_pool_def base_def model_run_base.truncate_def
        stock_step_def flux_step_def internal_step_def bind_exc_def
        np_column_def np_column2_def np_elementwise_def add_variable_def variables_def
        DataArray_def coords_of_def index_var_def scalar_float_def
        monthly2_def monthly3_def nan_first_def py_slice_to_def convert2_def convert3_def
        Dataset_def dims_consistent_def dim_sizes_def)

text \<open>
  C10: when \<^verbatim>\<open>create_Delta_14C_dataset\<close> returns, a candidate name (a pool, an external
  input \<^verbatim>\<open>NPP_to_<pool>\<close>, an internal flux \<^verbatim>\<open><pool>_to_<pool>\<close> or an external output
  \<^verbatim>\<open><pool>_to_RH\<close>) is a data variable of the result if and only if a variable of that
  name is in the input dataset; candidates absent from the input are skipped without an
  error, the result has no data variable but candidates, and the coordinates are those of
  the input.
\<close>

theorem output_variable_iff_input_variable:
  assumes "create_Delta_14C_dataset mdo ds mr mr_14C = Inr res"
  shows "(\<forall>name\<in>set (candidate_names (pool_names (model_structure mdo))).
            name \<in> fst ` set (data_vars res) \<longleftrightarrow> name \<in> fst ` set (variables ds)) \<and>
         fst ` set (data_vars res) \<subseteq> set (candidate_names (pool_names (model_structure mdo))) \<and>
         coords res = coords ds"
  using create_Delta_14C_dataset_keys[OF assms] by blast

theorem output_variable_iff_input_variable_witness:
  "\<exists>res. create_Delta_14C_dataset mdo_soil ds_site (DMR (dmr_one_pool (Fin 0.5) (Fin 2)))
            (DMR dmr_14C_one_pool) = Inr res \<and>
         ''Soil'' \<in> fst ` set (data_vars res) \<and>
         ''Soil_to_RH'' \<in> fst ` set (data_vars res) \<and>
         ''NPP_to_Soil'' \<notin> fst ` set (data_vars res) \<and>
         ''Soil_to_Soil'' \<notin> fst ` set (data_vars res) \<and>
         ''GPP'' \<notin> fst ` set (data_vars res)"
proof -
  obtain res where r: "create_Delta_14C_dataset mdo_soil ds_site
                         (DMR (dmr_one_pool (Fin 0.5) (Fin 2))) (DMR dmr_14C_one_pool) = Inr res"
    using create_Delta_14C_dataset_soil by blast
  have c: "set (candidate_names (pool_names (model_structure mdo_soil)))
             = {''Soil'', ''NPP_to_Soil'', ''Soil_to_Soil'', ''Soil_to_RH''}"
    by (simp add: candidate_names_def pool_names_def mdo_soil_def)
  have v: "fst ` set (variables ds_site)
             = {''time'', ''ens'', ''lat'', ''lon'', ''Soil'', ''Soil_to_RH'', ''GPP''}"
    by (simp add: variables_def ds_site_def)
  note T = output_variable_iff_input_variable[OF r, unfolded c v]
  have 1: "\<forall>name\<in>{''Soil'', ''NPP_to_Soil'', ''Soil_to_Soil'', ''Soil_to_RH''}.
             name \<in> fst ` set (data_vars res)
               \<longleftrightarrow> name \<in> {''time'', ''ens'', ''lat'', ''lon'', ''Soil'', ''Soil_to_RH'', ''GPP''}"
    and 2: "fst ` set (data_vars res)
              \<subseteq> {''Soil'', ''NPP_to_Soil'', ''Soil_to_Soil'', ''Soil_to_RH''}"
    by (rule T[THEN conjunct1], rule T[THEN conjunct2, THEN conjunct1])
  from 1 have "''Soil'' \<in> fst ` set (data_vars res)" "''Soil_to_RH'' \<in> fst ` set (data_vars res)"
    "''NPP_to_Soil'' \<notin> fst ` set (data_vars res)" "''Soil_to_Soil'' \<notin> fst ` set (data_vars res)"
    by simp_all
  moreover from 2 have "''GPP'' \<notin> fst ` set (data_vars res)"
    by auto
  ultimately show ?thesis
    using r by blast
qed

end
